theory Spec2Isabelle
  imports Main "HOL-Library.Word"
begin

unbundle bit_operations_syntax

section \<open>Data model\<close>

text \<open>
  The unit under study is \<^verbatim>\<open>src/selinux.c\<close>: \<^verbatim>\<open>mode_to_security_class\<close>,
  \<^verbatim>\<open>computecon\<close>, \<^verbatim>\<open>defaultcon\<close>, \<^verbatim>\<open>restorecon_private\<close> and \<^verbatim>\<open>restorecon\<close>.
  Everything these functions call (libselinux, the kernel's file interface, \<^verbatim>\<open>fts\<close>,
  \<^verbatim>\<open>error\<close>) is outside the file; it is modelled below as operations on an explicit
  world state, each of which appends itself to a log of calls.
\<close>

subsection \<open>Labels\<close>

text \<open>
  A \<^verbatim>\<open>security_context_t\<close> is a C string, possibly the null pointer: \<open>string option\<close>.
  A \<^verbatim>\<open>context_t\<close> is libselinux's parsed form with the four components
  user, role, type and range.
\<close>

record context_t =
  c_user :: string
  c_role :: string
  c_type :: string
  c_range :: string

definition context_type_get :: "context_t \<Rightarrow> string" where
  "context_type_get c = c_type c"

definition context_type_set :: "context_t \<Rightarrow> string \<Rightarrow> context_t" where
  "context_type_set c t = c\<lparr>c_type := t\<rparr>"

subsection \<open>File modes (\<^verbatim>\<open>sys/stat.h\<close>, Linux values) and error numbers\<close>

type_synonym mode_t = "32 word"

definition S_IFMT :: mode_t where "S_IFMT = 61440"     \<comment> \<open>0170000\<close>
definition S_IFSOCK :: mode_t where "S_IFSOCK = 49152" \<comment> \<open>0140000\<close>
definition S_IFLNK :: mode_t where "S_IFLNK = 40960"   \<comment> \<open>0120000\<close>
definition S_IFREG :: mode_t where "S_IFREG = 32768"   \<comment> \<open>0100000\<close>
definition S_IFBLK :: mode_t where "S_IFBLK = 24576"   \<comment> \<open>0060000\<close>
definition S_IFDIR :: mode_t where "S_IFDIR = 16384"   \<comment> \<open>0040000\<close>
definition S_IFCHR :: mode_t where "S_IFCHR = 8192"    \<comment> \<open>0020000\<close>
definition S_IFIFO :: mode_t where "S_IFIFO = 4096"    \<comment> \<open>0010000\<close>

definition S_ISREG :: "mode_t \<Rightarrow> bool" where "S_ISREG m = (m AND S_IFMT = S_IFREG)"
definition S_ISDIR :: "mode_t \<Rightarrow> bool" where "S_ISDIR m = (m AND S_IFMT = S_IFDIR)"
definition S_ISCHR :: "mode_t \<Rightarrow> bool" where "S_ISCHR m = (m AND S_IFMT = S_IFCHR)"
definition S_ISBLK :: "mode_t \<Rightarrow> bool" where "S_ISBLK m = (m AND S_IFMT = S_IFBLK)"
definition S_ISFIFO :: "mode_t \<Rightarrow> bool" where "S_ISFIFO m = (m AND S_IFMT = S_IFIFO)"
definition S_ISLNK :: "mode_t \<Rightarrow> bool" where "S_ISLNK m = (m AND S_IFMT = S_IFLNK)"
definition S_ISSOCK :: "mode_t \<Rightarrow> bool" where "S_ISSOCK m = (m AND S_IFMT = S_IFSOCK)"

definition ENOENT :: int where "ENOENT = 2"
definition EBADF :: int where "EBADF = 9"
definition EINVAL :: int where "EINVAL = 22"
definition ELOOP :: int where "ELOOP = 40"
definition ENODATA :: int where "ENODATA = 61"

subsection \<open>The world outside \<^verbatim>\<open>selinux.c\<close>\<close>

text \<open>Every call that leaves the file, with its arguments.\<close>

datatype call =
    Matchpathcon string mode_t
  | Getcon
  | Getfilecon string
  | String_to_security_class string
  | Security_compute_create string string nat
  | Setfscreatecon "string option"
  | Getfscreatecon
  | Lsetfilecon string string
  | Fsetfilecon int string
  | Open string
  | Fstat int
  | Lstat string
  | Fgetfilecon int
  | Lgetfilecon string
  | Close int
  | Fts_open string
  | Fts_read
  | Fts_close
  | Error_msg int string

text \<open>
  The mutable part: \<^verbatim>\<open>errno\<close>, the process-wide creation label
  (\<^verbatim>\<open>setfscreatecon\<close>/\<^verbatim>\<open>getfscreatecon\<close>; \<open>None\<close> is the null context, "use the policy
  default"), the descriptor table (index = descriptor, entry = the path it was opened
  on), the mode and the on-disk label of each path as seen without following a final
  symlink, and the log of calls made so far.
\<close>

record world =
  errno :: int
  fscreatecon :: "string option"
  fdtab :: "string option list"
  st_mode :: "string \<Rightarrow> mode_t"
  filecon :: "string \<Rightarrow> string option"
  calls :: "call list"

text \<open>
  The fixed part: the path-pattern database behind \<^verbatim>\<open>matchpathcon\<close>, the policy
  behind \<^verbatim>\<open>getcon\<close>, \<^verbatim>\<open>string_to_security_class\<close> (0 = unknown class) and
  \<^verbatim>\<open>security_compute_create\<close>, symlink resolution for the one following call
  (\<^verbatim>\<open>getfilecon\<close>), the sequence of paths a physical \<^verbatim>\<open>fts\<close> walk of a root yields,
  libselinux's parser and printer of labels, and \<open>fault\<close>: given the calls made so
  far and the call being made, the error number it fails with, if it fails for a
  reason the rest of the model does not decide (permissions, I/O errors, missing
  files, ...).
\<close>

record env =
  pattern_db :: "string \<Rightarrow> mode_t \<Rightarrow> string option"
  process_con :: string
  class_table :: "string \<Rightarrow> nat"
  policy_create :: "string \<Rightarrow> string \<Rightarrow> nat \<Rightarrow> string option"
  resolve :: "string \<Rightarrow> string"
  fts_walk :: "string \<Rightarrow> string list"
  context_new_lib :: "string \<Rightarrow> context_t option"
  context_str_lib :: "context_t \<Rightarrow> string"
  fault :: "call list \<Rightarrow> call \<Rightarrow> int option"

text \<open>Making a call: it is logged, and an injected fault sets \<^verbatim>\<open>errno\<close>.\<close>

definition enter :: "env \<Rightarrow> call \<Rightarrow> world \<Rightarrow> int option \<times> world" where
  "enter E c w =
     (case fault E (calls w) c of
        None \<Rightarrow> (None, w\<lparr>calls := calls w @ [c]\<rparr>)
      | Some e \<Rightarrow> (Some e, w\<lparr>errno := e, calls := calls w @ [c]\<rparr>))"

subsection \<open>libselinux: label parsing\<close>

text \<open>
  \<^verbatim>\<open>context_new\<close> reads its argument as a string; handed the null pointer its behaviour
  is undefined, which the model shows as the outer \<open>None\<close>. The inner option is the
  returned pointer (\<open>None\<close>: the string is not a label).
\<close>

definition context_new :: "env \<Rightarrow> string option \<Rightarrow> context_t option option" where
  "context_new E con = (case con of None \<Rightarrow> None | Some s \<Rightarrow> Some (context_new_lib E s))"

definition context_str :: "env \<Rightarrow> context_t \<Rightarrow> string" where
  "context_str E c = context_str_lib E c"

subsection \<open>libselinux: queries\<close>

definition matchpathcon :: "env \<Rightarrow> string \<Rightarrow> mode_t \<Rightarrow> world \<Rightarrow> (int \<times> string option) \<times> world" where
  "matchpathcon E path mode w =
     (case enter E (Matchpathcon path mode) w of
        (Some e, w') \<Rightarrow> ((- 1, None), w')
      | (None, w') \<Rightarrow>
          (case pattern_db E path mode of
             None \<Rightarrow> ((- 1, None), w'\<lparr>errno := ENOENT\<rparr>)
           | Some l \<Rightarrow> ((0, Some l), w')))"

definition getcon :: "env \<Rightarrow> world \<Rightarrow> (int \<times> string option) \<times> world" where
  "getcon E w =
     (case enter E Getcon w of
        (Some e, w') \<Rightarrow> ((- 1, None), w')
      | (None, w') \<Rightarrow> ((0, Some (process_con E)), w'))"

text \<open>
  The \<^verbatim>\<open>getfilecon\<close> family returns the length of the label, terminator included, or
  -1 and leaves the result pointer alone.
\<close>

definition filecon_result :: "string option \<Rightarrow> world \<Rightarrow> (int \<times> string option) \<times> world" where
  "filecon_result l w =
     (case l of
        None \<Rightarrow> ((- 1, None), w\<lparr>errno := ENODATA\<rparr>)
      | Some s \<Rightarrow> ((int (length s) + 1, Some s), w))"

definition fd_lookup :: "world \<Rightarrow> int \<Rightarrow> string option" where
  "fd_lookup w fd =
     (if 0 \<le> fd \<and> nat fd < length (fdtab w) then fdtab w ! nat fd else None)"

definition getfilecon :: "env \<Rightarrow> string \<Rightarrow> world \<Rightarrow> (int \<times> string option) \<times> world" where
  "getfilecon E path w =
     (case enter E (Getfilecon path) w of
        (Some e, w') \<Rightarrow> ((- 1, None), w')
      | (None, w') \<Rightarrow> filecon_result (filecon w' (resolve E path)) w')"

definition lgetfilecon :: "env \<Rightarrow> string \<Rightarrow> world \<Rightarrow> (int \<times> string option) \<times> world" where
  "lgetfilecon E path w =
     (case enter E (Lgetfilecon path) w of
        (Some e, w') \<Rightarrow> ((- 1, None), w')
      | (None, w') \<Rightarrow> filecon_result (filecon w' path) w')"

definition fgetfilecon :: "env \<Rightarrow> int \<Rightarrow> world \<Rightarrow> (int \<times> string option) \<times> world" where
  "fgetfilecon E fd w =
     (case enter E (Fgetfilecon fd) w of
        (Some e, w') \<Rightarrow> ((- 1, None), w')
      | (None, w') \<Rightarrow>
          (case fd_lookup w' fd of
             None \<Rightarrow> ((- 1, None), w'\<lparr>errno := EBADF\<rparr>)
           | Some p \<Rightarrow> filecon_result (filecon w' p) w'))"

definition getfscreatecon :: "env \<Rightarrow> world \<Rightarrow> (int \<times> string option) \<times> world" where
  "getfscreatecon E w =
     (case enter E Getfscreatecon w of
        (Some e, w') \<Rightarrow> ((- 1, None), w')
      | (None, w') \<Rightarrow> ((0, fscreatecon w'), w'))"

definition string_to_security_class :: "env \<Rightarrow> string \<Rightarrow> world \<Rightarrow> nat \<times> world" where
  "string_to_security_class E name w =
     (case enter E (String_to_security_class name) w of
        (Some e, w') \<Rightarrow> (0, w')
      | (None, w') \<Rightarrow>
          (if class_table E name = 0 then (0, w'\<lparr>errno := EINVAL\<rparr>)
           else (class_table E name, w')))"

text \<open>Both label arguments are read as strings: a null pointer is undefined behaviour.\<close>

definition security_compute_create ::
  "env \<Rightarrow> string option \<Rightarrow> string option \<Rightarrow> nat \<Rightarrow> world \<Rightarrow> ((int \<times> string option) \<times> world) option" where
  "security_compute_create E scon tcon tclass w =
     (case (scon, tcon) of
        (Some s, Some t) \<Rightarrow>
          Some (case enter E (Security_compute_create s t tclass) w of
                  (Some e, w') \<Rightarrow> ((- 1, None), w')
                | (None, w') \<Rightarrow>
                    (case policy_create E s t tclass of
                       None \<Rightarrow> ((- 1, None), w'\<lparr>errno := EINVAL\<rparr>)
                     | Some l \<Rightarrow> ((0, Some l), w')))
      | _ \<Rightarrow> None)"

subsection \<open>libselinux: updates\<close>

definition setfscreatecon :: "env \<Rightarrow> string option \<Rightarrow> world \<Rightarrow> int \<times> world" where
  "setfscreatecon E con w =
     (case enter E (Setfscreatecon con) w of
        (Some e, w') \<Rightarrow> (- 1, w')
      | (None, w') \<Rightarrow> (0, w'\<lparr>fscreatecon := con\<rparr>))"

text \<open>
  \<^verbatim>\<open>lsetfilecon\<close> and \<^verbatim>\<open>fsetfilecon\<close> take the length of the label they are given: the null
  pointer is undefined behaviour (\<open>None\<close>).
\<close>

definition lsetfilecon :: "env \<Rightarrow> string \<Rightarrow> string option \<Rightarrow> world \<Rightarrow> (int \<times> world) option" where
  "lsetfilecon E path con w =
     (case con of
        None \<Rightarrow> None
      | Some l \<Rightarrow>
          Some (case enter E (Lsetfilecon path l) w of
                  (Some e, w') \<Rightarrow> (- 1, w')
                | (None, w') \<Rightarrow> (0, w'\<lparr>filecon := (filecon w')(path := Some l)\<rparr>)))"

definition fsetfilecon :: "env \<Rightarrow> int \<Rightarrow> string option \<Rightarrow> world \<Rightarrow> (int \<times> world) option" where
  "fsetfilecon E fd con w =
     (case con of
        None \<Rightarrow> None
      | Some l \<Rightarrow>
          Some (case enter E (Fsetfilecon fd l) w of
                  (Some e, w') \<Rightarrow> (- 1, w')
                | (None, w') \<Rightarrow>
                    (case fd_lookup w' fd of
                       None \<Rightarrow> (- 1, w'\<lparr>errno := EBADF\<rparr>)
                     | Some p \<Rightarrow> (0, w'\<lparr>filecon := (filecon w')(p := Some l)\<rparr>))))"

subsection \<open>Files\<close>

text \<open>
  \<^verbatim>\<open>open (path, O_RDONLY | O_NOFOLLOW)\<close>: fails with \<^verbatim>\<open>ELOOP\<close> on a symbolic link, and
  otherwise returns the lowest descriptor that is not open.
\<close>

definition lowest_free :: "string option list \<Rightarrow> nat" where
  "lowest_free t = length (takeWhile (\<lambda>x. x \<noteq> None) t)"

definition fd_install :: "nat \<Rightarrow> string \<Rightarrow> string option list \<Rightarrow> string option list" where
  "fd_install n p t = (if n < length t then t[n := Some p] else t @ [Some p])"

definition open_rdonly_nofollow :: "env \<Rightarrow> string \<Rightarrow> world \<Rightarrow> int \<times> world" where
  "open_rdonly_nofollow E path w =
     (case enter E (Open path) w of
        (Some e, w') \<Rightarrow> (- 1, w')
      | (None, w') \<Rightarrow>
          (if S_ISLNK (st_mode w' path) then (- 1, w'\<lparr>errno := ELOOP\<rparr>)
           else (int (lowest_free (fdtab w')),
                 w'\<lparr>fdtab := fd_install (lowest_free (fdtab w')) path (fdtab w')\<rparr>)))"

text \<open>
  \<^verbatim>\<open>fstat\<close> and \<^verbatim>\<open>lstat\<close> return the status and \<^verbatim>\<open>sb.st_mode\<close>; on failure the buffer
  is not written, and the 0 standing for it is never read by the callers.
\<close>

definition fstat :: "env \<Rightarrow> int \<Rightarrow> world \<Rightarrow> (int \<times> mode_t) \<times> world" where
  "fstat E fd w =
     (case enter E (Fstat fd) w of
        (Some e, w') \<Rightarrow> ((- 1, 0), w')
      | (None, w') \<Rightarrow>
          (case fd_lookup w' fd of
             None \<Rightarrow> ((- 1, 0), w'\<lparr>errno := EBADF\<rparr>)
           | Some p \<Rightarrow> ((0, st_mode w' p), w')))"

definition lstat :: "env \<Rightarrow> string \<Rightarrow> world \<Rightarrow> (int \<times> mode_t) \<times> world" where
  "lstat E path w =
     (case enter E (Lstat path) w of
        (Some e, w') \<Rightarrow> ((- 1, 0), w')
      | (None, w') \<Rightarrow> ((0, st_mode w' path), w'))"

definition close_fd :: "env \<Rightarrow> int \<Rightarrow> world \<Rightarrow> int \<times> world" where
  "close_fd E fd w =
     (case enter E (Close fd) w of
        (Some e, w') \<Rightarrow> (- 1, w')
      | (None, w') \<Rightarrow>
          (case fd_lookup w' fd of
             None \<Rightarrow> (- 1, w'\<lparr>errno := EBADF\<rparr>)
           | Some p \<Rightarrow> (0, w'\<lparr>fdtab := (fdtab w')[nat fd := None]\<rparr>)))"

text \<open>POSIX \<^verbatim>\<open>dirname\<close>.\<close>

definition dirname :: "string \<Rightarrow> string" where
  "dirname p =
     (let r = dropWhile (\<lambda>c. c = CHR ''/'') (rev p) in
      if r = [] then (if p = [] then ''.'' else ''/'')
      else
        (let d = dropWhile (\<lambda>c. c \<noteq> CHR ''/'') r in
         if d = [] then ''.''
         else
           (let d' = dropWhile (\<lambda>c. c = CHR ''/'') d in
            if d' = [] then ''/'' else rev d')))"

subsection \<open>The tree walker (\<^verbatim>\<open>fts\<close>)\<close>

text \<open>
  An open stream holds the path of the entry returned last (\<^verbatim>\<open>fts_path\<close>) and the
  paths still to be returned. \<^verbatim>\<open>fts_open\<close> returns the null pointer (\<open>None\<close>) on
  failure. \<^verbatim>\<open>fts_read\<close> and \<^verbatim>\<open>fts_close\<close> dereference the stream: on the null pointer
  their behaviour is undefined (the outer \<open>None\<close>). When the hierarchy is exhausted
  \<^verbatim>\<open>fts_read\<close> returns null and sets \<^verbatim>\<open>errno\<close> to 0; on an error it returns null with
  \<^verbatim>\<open>errno\<close> set.
\<close>

record FTS =
  fts_path :: string
  fts_pending :: "string list"

definition fts_open :: "env \<Rightarrow> string \<Rightarrow> world \<Rightarrow> FTS option \<times> world" where
  "fts_open E path w =
     (case enter E (Fts_open path) w of
        (Some e, w') \<Rightarrow> (None, w')
      | (None, w') \<Rightarrow> (Some \<lparr>fts_path = [], fts_pending = fts_walk E path\<rparr>, w'))"

definition fts_read :: "env \<Rightarrow> FTS option \<Rightarrow> world \<Rightarrow> ((string option \<times> FTS option) \<times> world) option" where
  "fts_read E fts w =
     (case fts of
        None \<Rightarrow> None
      | Some sp \<Rightarrow>
          Some (case enter E Fts_read w of
                  (Some e, w') \<Rightarrow> ((None, Some sp), w')
                | (None, w') \<Rightarrow>
                    (case fts_pending sp of
                       [] \<Rightarrow> ((None, Some sp), w'\<lparr>errno := 0\<rparr>)
                     | p # ps \<Rightarrow> ((Some p, Some \<lparr>fts_path = p, fts_pending = ps\<rparr>), w'))))"

definition fts_close :: "env \<Rightarrow> FTS option \<Rightarrow> world \<Rightarrow> (int \<times> world) option" where
  "fts_close E fts w =
     (case fts of
        None \<Rightarrow> None
      | Some sp \<Rightarrow>
          Some (case enter E Fts_close w of
                  (Some e, w') \<Rightarrow> (- 1, w')
                | (None, w') \<Rightarrow> (0, w')))"

text \<open>\<^verbatim>\<open>error (0, errnum, message)\<close> prints a diagnostic and returns.\<close>

definition error :: "int \<Rightarrow> string \<Rightarrow> world \<Rightarrow> world" where
  "error errnum msg w = w\<lparr>calls := calls w @ [Error_msg errnum msg]\<rparr>"

section \<open>The functions of \<^verbatim>\<open>selinux.c\<close>\<close>

subsection \<open>\<^verbatim>\<open>mode_to_security_class\<close>\<close>

definition mode_to_security_class :: "env \<Rightarrow> mode_t \<Rightarrow> world \<Rightarrow> nat \<times> world" where
  "mode_to_security_class E m w =
     (if S_ISREG m then string_to_security_class E ''file'' w
      else if S_ISDIR m then string_to_security_class E ''dir'' w
      else if S_ISCHR m then string_to_security_class E ''chr_file'' w
      else if S_ISBLK m then string_to_security_class E ''blk_file'' w
      else if S_ISFIFO m then string_to_security_class E ''fifo_file'' w
      else if S_ISLNK m then string_to_security_class E ''lnk_file'' w
      else if S_ISSOCK m then string_to_security_class E ''sock_file'' w
      else (0, w\<lparr>errno := EINVAL\<rparr>))"

subsection \<open>\<^verbatim>\<open>computecon\<close>\<close>

text \<open>
  The result is the status \<^verbatim>\<open>rc\<close> and the label stored through \<^verbatim>\<open>con\<close>. (Allocation
  failure of \<^verbatim>\<open>strdup\<close> is not modelled; \<^verbatim>\<open>free\<close> and \<^verbatim>\<open>freecon\<close> have no effect on the
  world.)
\<close>

definition computecon ::
  "env \<Rightarrow> string \<Rightarrow> mode_t \<Rightarrow> world \<Rightarrow> ((int \<times> string option) \<times> world) option" where
  "computecon E path mode w =
     (case getcon E w of
        ((r1, scon), w1) \<Rightarrow>
          if r1 < 0 then Some ((- 1, None), w1)
          else
            (case getfilecon E (dirname path) w1 of
               ((r2, tcon), w2) \<Rightarrow>
                 if r2 < 0 then Some ((- 1, None), w2)
                 else
                   (case mode_to_security_class E mode w2 of
                      (tclass, w3) \<Rightarrow>
                        if tclass = 0 then Some ((- 1, None), w3)
                        else security_compute_create E scon tcon tclass w3)))"

subsection \<open>\<^verbatim>\<open>defaultcon\<close>\<close>

definition defaultcon :: "env \<Rightarrow> string \<Rightarrow> mode_t \<Rightarrow> world \<Rightarrow> (int \<times> world) option" where
  "defaultcon E path mode w =
     (case matchpathcon E path mode w of
        ((rc1, scon), w1) \<Rightarrow>
          if rc1 < 0 then Some (rc1, w1)
          else
            (case computecon E path mode w1 of
               None \<Rightarrow> None
             | Some ((rc2, tcon), w2) \<Rightarrow>
                 if rc2 < 0 then Some (rc2, w2)
                 else
                   (case context_new E scon of
                      None \<Rightarrow> None
                    | Some None \<Rightarrow> Some (- 1, w2)
                    | Some (Some scontext) \<Rightarrow>
                        (case context_new E tcon of
                           None \<Rightarrow> None
                         | Some None \<Rightarrow> Some (- 1, w2)
                         | Some (Some tcontext) \<Rightarrow>
                             Some (setfscreatecon E
                                     (Some (context_str E
                                        (context_type_set tcontext (context_type_get scontext))))
                                     w2)))))"

subsection \<open>\<^verbatim>\<open>restorecon_private\<close>\<close>

text \<open>The code after the label \<^verbatim>\<open>quit\<close>: close the descriptor, return \<^verbatim>\<open>rc\<close>.\<close>

definition quit :: "env \<Rightarrow> int \<Rightarrow> int \<Rightarrow> world \<Rightarrow> (int \<times> world) option" where
  "quit E fd rc w = Some (rc, snd (close_fd E fd w))"

text \<open>
  C's tests \<^verbatim>\<open>!fd\<close> and \<^verbatim>\<open>if (fd)\<close> compare the descriptor with 0, and \<^verbatim>\<open>!rc\<close> compares
  the status with 0; they are written out as such.
\<close>

definition restorecon_private :: "env \<Rightarrow> string \<Rightarrow> bool \<Rightarrow> world \<Rightarrow> (int \<times> world) option" where
  "restorecon_private E path preserve w =
     (if preserve then
        (case getfscreatecon E w of
           ((r, tcon), w1) \<Rightarrow>
             if r < 0 then Some (- 1, w1)
             else lsetfilecon E path tcon w1)
      else
        (case open_rdonly_nofollow E path w of
           (fd, w1) \<Rightarrow>
             if fd = 0 \<and> errno w1 \<noteq> ELOOP then quit E fd (- 1) w1
             else
               (case (if fd \<noteq> 0 then fstat E fd w1 else lstat E path w1) of
                  ((rc2, sb), w2) \<Rightarrow>
                    if rc2 < 0 then quit E fd rc2 w2
                    else
                      (case matchpathcon E path sb w2 of
                         ((rc3, scon), w3) \<Rightarrow>
                           if rc3 < 0 then quit E fd rc3 w3
                           else
                             (case context_new E scon of
                                None \<Rightarrow> None
                              | Some None \<Rightarrow> quit E fd (- 1) w3
                              | Some (Some scontext) \<Rightarrow>
                                  (case (if fd \<noteq> 0 then fgetfilecon E fd w3
                                         else lgetfilecon E path w3) of
                                     ((rc4, tcon), w4) \<Rightarrow>
                                       if rc4 = 0 then quit E fd rc4 w4
                                       else
                                         (case context_new E tcon of
                                            None \<Rightarrow> None
                                          | Some None \<Rightarrow> quit E fd rc4 w4
                                          | Some (Some tcontext) \<Rightarrow>
                                              (case (if fd \<noteq> 0 then
                                                       fsetfilecon E fd
                                                         (Some (context_str E
                                                            (context_type_set tcontext
                                                               (context_type_get scontext)))) w4
                                                     else
                                                       lsetfilecon E path
                                                         (Some (context_str E
                                                            (context_type_set tcontext
                                                               (context_type_get scontext)))) w4) of
                                                 None \<Rightarrow> None
                                               | Some (rc5, w5) \<Rightarrow> quit E fd rc5 w5))))))))"

subsection \<open>\<^verbatim>\<open>restorecon\<close>\<close>

text \<open>
  \<^verbatim>\<open>ok &= rc\<close> with \<^verbatim>\<open>bool ok\<close> and \<^verbatim>\<open>int rc\<close>: \<^verbatim>\<open>ok\<close> is promoted to 0 or 1, the bitwise
  and is taken, and the result is converted back to \<^verbatim>\<open>bool\<close> (non-zero is true).
  Returning an \<^verbatim>\<open>int\<close> from a function of type \<^verbatim>\<open>bool\<close> converts it the same way.
\<close>

definition bool_of_int :: "int \<Rightarrow> bool" where
  "bool_of_int i = (i \<noteq> 0)"

definition and_assign :: "bool \<Rightarrow> int \<Rightarrow> bool" where
  "and_assign ok rc = bool_of_int ((if ok then 1 else 0) AND rc)"

text \<open>
  The \<^verbatim>\<open>while (1)\<close> loop, from the state at its head (the stream, \<^verbatim>\<open>ok\<close>, the world) to
  the state after its \<^verbatim>\<open>break\<close>. The path handed to \<^verbatim>\<open>restorecon_private\<close> is the
  stream's \<^verbatim>\<open>fts->fts_path\<close>, read after \<^verbatim>\<open>fts_read\<close> has returned an entry. The loop
  ends because every \<^verbatim>\<open>fts_read\<close> that returns an entry shortens what is left of the
  walk.
\<close>

function restorecon_loop ::
  "env \<Rightarrow> bool \<Rightarrow> FTS option \<Rightarrow> bool \<Rightarrow> world \<Rightarrow> (bool \<times> FTS option \<times> world) option" where
  "restorecon_loop E preserve fts ok w =
     (case fts_read E fts w of
        None \<Rightarrow> None
      | Some ((None, fts'), w1) \<Rightarrow>
          if errno w1 \<noteq> 0 then Some (False, fts', error (errno w1) ''fts_read failed'' w1)
          else Some (ok, fts', w1)
      | Some ((Some ent, fts'), w1) \<Rightarrow>
          (case fts' of
             None \<Rightarrow> None
           | Some sp \<Rightarrow>
               (case restorecon_private E (fts_path sp) preserve w1 of
                  None \<Rightarrow> None
                | Some (rc, w2) \<Rightarrow> restorecon_loop E preserve fts' (and_assign ok rc) w2)))"
  by pat_completeness auto

termination restorecon_loop
proof (relation "measure (\<lambda>(E, preserve, fts, ok, w).
                   case fts of None \<Rightarrow> 0 | Some sp \<Rightarrow> length (fts_pending sp))")
  show "wf (measure (\<lambda>(E, preserve, fts, ok, w).
              case fts of None \<Rightarrow> 0 | Some sp \<Rightarrow> length (fts_pending sp)))"
    by simp
next
  fix E :: env and preserve :: bool and fts :: "FTS option" and ok :: bool and w :: world
    and x2 x1 w1 x1a fts' ent sp x2a rc w2
  assume "fts_read E fts w = Some x2" "(x1, w1) = x2" "(x1a, fts') = x1"
    "x1a = Some ent" "fts' = Some sp"
  then have "fts_read E fts w = Some ((Some ent, Some sp), w1)"
    by simp
  then have "\<exists>sp0. fts = Some sp0 \<and> length (fts_pending sp) < length (fts_pending sp0)"
    by (auto simp: fts_read_def split: option.splits prod.splits list.splits)
  then show "((E, preserve, fts', and_assign ok rc, w2), (E, preserve, fts, ok, w))
             \<in> measure (\<lambda>(E, preserve, fts, ok, w).
                  case fts of None \<Rightarrow> 0 | Some sp \<Rightarrow> length (fts_pending sp))"
    using \<open>fts' = Some sp\<close> by auto
qed

text \<open>The equation of the loop is unfolded by hand where it is needed.\<close>

declare restorecon_loop.simps [simp del]

definition restorecon :: "env \<Rightarrow> string \<Rightarrow> bool \<Rightarrow> bool \<Rightarrow> world \<Rightarrow> (bool \<times> world) option" where
  "restorecon E path recurse preserve w =
     (if \<not> recurse then
        (case restorecon_private E path preserve w of
           None \<Rightarrow> None
         | Some (rc, w') \<Rightarrow> Some (bool_of_int rc, w'))
      else
        (case fts_open E path w of
           (fts, w1) \<Rightarrow>
             (case restorecon_loop E preserve fts True w1 of
                None \<Rightarrow> None
              | Some (ok, fts', w2) \<Rightarrow>
                  (case fts_close E fts' w2 of
                     None \<Rightarrow> None
                   | Some (rc, w3) \<Rightarrow>
                       if rc \<noteq> 0 then Some (False, error (errno w3) ''fts_close failed'' w3)
                       else Some (ok, w3)))))"

section \<open>A sample system\<close>

text \<open>
  A small concrete system on which the functions can be run: labels are written
  \<^verbatim>\<open>user:role:type:range\<close>; \<^verbatim>\<open>/etc/motd\<close> is a regular file, \<^verbatim>\<open>/etc/localtime\<close> a
  symbolic link, \<^verbatim>\<open>/srv\<close> a directory holding \<^verbatim>\<open>a\<close> (which carries no label on disk)
  and \<^verbatim>\<open>b\<close>; \<^verbatim>\<open>/mnt/x\<close> matches no pattern of the database. The walk of \<^verbatim>\<open>/srv\<close>
  returns the directory before and after its entries, as \<^verbatim>\<open>fts\<close> does. No call fails for
  an outside reason, and descriptors 0, 1 and 2 are open.
\<close>

definition field :: "string \<Rightarrow> string" where
  "field s = takeWhile (\<lambda>c. c \<noteq> CHR '':'') s"

definition rest :: "string \<Rightarrow> string" where
  "rest s = drop 1 (dropWhile (\<lambda>c. c \<noteq> CHR '':'') s)"

definition sample_context_new :: "string \<Rightarrow> context_t option" where
  "sample_context_new s =
     (if length (filter (\<lambda>c. c = CHR '':'') s) < 2 then None
      else Some \<lparr>c_user = field s, c_role = field (rest s), c_type = field (rest (rest s)),
                 c_range = rest (rest (rest s))\<rparr>)"

definition sample_context_str :: "context_t \<Rightarrow> string" where
  "sample_context_str c =
     c_user c @ '':'' @ c_role c @ '':'' @ c_type c @
     (if c_range c = [] then [] else '':'' @ c_range c)"

definition sample_pattern_db :: "string \<Rightarrow> mode_t \<Rightarrow> string option" where
  "sample_pattern_db p m =
     (if p = ''/etc/motd'' then Some ''system_u:object_r:etc_runtime_t:s0''
      else if p = ''/etc/localtime'' then Some ''system_u:object_r:locale_t:s0''
      else if take 4 p = ''/srv'' then Some ''system_u:object_r:var_t:s0''
      else None)"

definition sample_class_table :: "string \<Rightarrow> nat" where
  "sample_class_table n =
     (if n = ''file'' then 6 else if n = ''dir'' then 7 else if n = ''lnk_file'' then 9
      else if n = ''chr_file'' then 10 else if n = ''blk_file'' then 11
      else if n = ''sock_file'' then 12 else if n = ''fifo_file'' then 13 else 0)"

definition sample_walk :: "string \<Rightarrow> string list" where
  "sample_walk root =
     (if root = ''/srv'' then [''/srv'', ''/srv/a'', ''/srv/b'', ''/srv''] else [root])"

definition no_fault :: "call list \<Rightarrow> call \<Rightarrow> int option" where
  "no_fault h c = None"

definition sample_env :: env where
  "sample_env =
     \<lparr>pattern_db = sample_pattern_db,
      process_con = ''unconfined_u:unconfined_r:unconfined_t:s0'',
      class_table = sample_class_table,
      policy_create = (\<lambda>s t c. Some ''unconfined_u:object_r:etc_t:s0''),
      resolve = (\<lambda>p. p),
      fts_walk = sample_walk,
      context_new_lib = sample_context_new,
      context_str_lib = sample_context_str,
      fault = no_fault\<rparr>"

definition sample_mode :: "string \<Rightarrow> mode_t" where
  "sample_mode p =
     (if p = ''/etc'' \<or> p = ''/srv'' \<or> p = ''/mnt'' then 16877
      else if p = ''/etc/localtime'' then 41471
      else 33188)"

definition sample_filecon :: "string \<Rightarrow> string option" where
  "sample_filecon p =
     (if p = ''/srv/a'' then None
      else if p = ''/etc'' then Some ''system_u:object_r:etc_t:s0''
      else Some ''unconfined_u:object_r:user_tmp_t:s0'')"

definition sample_world :: world where
  "sample_world =
     \<lparr>errno = 0,
      fscreatecon = None,
      fdtab = [Some ''/dev/tty'', Some ''/dev/tty'', Some ''/dev/tty''],
      st_mode = sample_mode,
      filecon = sample_filecon,
      calls = []\<rparr>"

text \<open>The same system once a creation label has been installed.\<close>

definition creating_world :: world where
  "creating_world = sample_world\<lparr>fscreatecon := Some ''system_u:object_r:etc_t:s0''\<rparr>"

definition all_symlinks :: "string \<Rightarrow> mode_t" where
  "all_symlinks p = 41471"

definition no_labels :: "string \<Rightarrow> string option" where
  "no_labels p = None"

section \<open>Observing a run\<close>

text \<open>The calls made between two worlds of one run.\<close>

definition new_calls :: "world \<Rightarrow> world \<Rightarrow> call list" where
  "new_calls w w' = drop (length (calls w)) (calls w')"

text \<open>Queries of the path-pattern database and of the policy-transition function.\<close>

fun is_policy_query :: "call \<Rightarrow> bool" where
  "is_policy_query (Matchpathcon p m) = True"
| "is_policy_query (Security_compute_create s t c) = True"
| "is_policy_query c = False"

text \<open>Calls that open, inspect, read the label of, relabel or close a file.\<close>

fun touches_object :: "call \<Rightarrow> bool" where
  "touches_object (Open p) = True"
| "touches_object (Fstat fd) = True"
| "touches_object (Lstat p) = True"
| "touches_object (Fgetfilecon fd) = True"
| "touches_object (Lgetfilecon p) = True"
| "touches_object (Getfilecon p) = True"
| "touches_object (Fsetfilecon fd l) = True"
| "touches_object (Lsetfilecon p l) = True"
| "touches_object (Close fd) = True"
| "touches_object c = False"

section \<open>Facts about the modelled calls\<close>

lemmas prim_defs = enter_def matchpathcon_def getcon_def filecon_result_def getfilecon_def
  lgetfilecon_def fgetfilecon_def getfscreatecon_def string_to_security_class_def
  security_compute_create_def setfscreatecon_def lsetfilecon_def fsetfilecon_def
  open_rdonly_nofollow_def fstat_def lstat_def close_fd_def context_new_def context_str_def
  context_type_get_def context_type_set_def quit_def

lemma returned_value:
  assumes "map_option fst r = Some a"
  shows "\<exists>w. r = Some (a, w)"
  using assms by (cases r) auto

lemma lowest_free_le: "lowest_free t \<le> length t"
  by (simp add: lowest_free_def length_takeWhile_le)

lemma fd_install_length [simp]: "lowest_free t < length (fd_install (lowest_free t) p t)"
  using lowest_free_le [of t] by (auto simp: fd_install_def)

lemma fd_install_nth [simp]: "fd_install (lowest_free t) p t ! lowest_free t = Some p"
  using lowest_free_le [of t] by (auto simp: fd_install_def nth_append)

lemma fd_lookup_negative: "fd < 0 \<Longrightarrow> fd_lookup w fd = None"
  by (simp add: fd_lookup_def)

lemma open_effects:
  "calls (snd (open_rdonly_nofollow E path w)) = calls w @ [Open path] \<and>
   filecon (snd (open_rdonly_nofollow E path w)) = filecon w"
  by (simp add: open_rdonly_nofollow_def enter_def split: option.splits)

lemma fstat_negative:
  assumes "fd < 0"
  shows "fst (fstat E fd w) = (- 1, 0) \<and>
         calls (snd (fstat E fd w)) = calls w @ [Fstat fd] \<and>
         filecon (snd (fstat E fd w)) = filecon w"
  using fd_lookup_negative [OF assms]
  by (simp add: fstat_def enter_def split: option.splits)

lemma close_fd_effects:
  "calls (snd (close_fd E fd w)) = calls w @ [Close fd] \<and>
   filecon (snd (close_fd E fd w)) = filecon w"
  by (simp add: close_fd_def enter_def split: option.splits)

lemma matchpathcon_calls:
  "calls (snd (matchpathcon E path mode w)) = calls w @ [Matchpathcon path mode]"
  by (simp add: matchpathcon_def enter_def split: option.splits)

lemma matchpathcon_ok:
  assumes "matchpathcon E path mode w = ((rc, scon), w1)" and "\<not> rc < 0"
  shows "rc = 0 \<and> scon = pattern_db E path mode \<and> scon \<noteq> None"
proof (cases "fault E (calls w) (Matchpathcon path mode)")
  case (Some e)
  with assms show ?thesis
    by (simp add: matchpathcon_def enter_def)
next
  case None
  note nofault = this
  show ?thesis
  proof (cases "pattern_db E path mode")
    case None
    with assms nofault show ?thesis
      by (simp add: matchpathcon_def enter_def)
  next
    case (Some l)
    with assms nofault have "rc = 0" and "scon = Some l"
      by (simp_all add: matchpathcon_def enter_def)
    with Some show ?thesis
      by simp
  qed
qed

lemma string_to_security_class_calls:
  "\<exists>later. calls (snd (string_to_security_class E n w)) = calls w @ later"
  by (simp add: string_to_security_class_def enter_def split: option.splits)

lemma mode_to_security_class_calls:
  "\<exists>later. calls (snd (mode_to_security_class E m w)) = calls w @ later"
  using string_to_security_class_calls by (simp add: mode_to_security_class_def)

lemma security_compute_create_ok:
  assumes "security_compute_create E scon tcon tclass w = Some ((rc, con), w')" and "\<not> rc < 0"
  shows "rc = 0 \<and> con \<noteq> None"
proof -
  from assms(1) obtain s t where st: "scon = Some s" "tcon = Some t"
    by (cases scon; cases tcon) (simp_all add: security_compute_create_def)
  show ?thesis
  proof (cases "fault E (calls w) (Security_compute_create s t tclass)")
    case (Some e)
    with assms st show ?thesis
      by (simp add: security_compute_create_def enter_def)
  next
    case None
    note nofault = this
    show ?thesis
    proof (cases "policy_create E s t tclass")
      case None
      with assms st nofault show ?thesis
        by (simp add: security_compute_create_def enter_def)
    next
      case (Some l)
      with assms st nofault have "rc = 0" and "con = Some l"
        by (simp_all add: security_compute_create_def enter_def)
      then show ?thesis
        by simp
    qed
  qed
qed

text \<open>The three locals of \<^verbatim>\<open>computecon\<close> on the path that reaches the policy query.\<close>

lemma computecon_reaches_policy:
  assumes "computecon E path mode w = Some ((rc, con), w')" and "\<not> rc < 0"
  shows "\<exists>scon tcon tclass w3. security_compute_create E scon tcon tclass w3 = Some ((rc, con), w')"
proof -
  obtain r1 scon w1 where g: "getcon E w = ((r1, scon), w1)"
    by (metis prod.exhaust)
  obtain r2 tcon w2 where f: "getfilecon E (dirname path) w1 = ((r2, tcon), w2)"
    by (metis prod.exhaust)
  obtain tclass w3 where m: "mode_to_security_class E mode w2 = (tclass, w3)"
    by (metis prod.exhaust)
  from assms g f m have "security_compute_create E scon tcon tclass w3 = Some ((rc, con), w')"
    by (auto simp: computecon_def split: if_splits)
  then show ?thesis
    by blast
qed

lemma computecon_ok:
  assumes "computecon E path mode w = Some ((rc, con), w')" and "\<not> rc < 0"
  shows "rc = 0 \<and> con \<noteq> None"
  using computecon_reaches_policy [OF assms] security_compute_create_ok assms(2)
  by blast

lemma computecon_calls:
  assumes "computecon E path mode w = Some (r, w')"
  shows "\<exists>later. calls w' = calls w @ later"
proof -
  obtain r1 scon w1 where g: "getcon E w = ((r1, scon), w1)"
    by (metis prod.exhaust)
  then have c1: "calls w1 = calls w @ [Getcon]"
    by (auto simp: getcon_def enter_def split: option.splits)
  obtain r2 tcon w2 where f: "getfilecon E (dirname path) w1 = ((r2, tcon), w2)"
    by (metis prod.exhaust)
  then have c2: "calls w2 = calls w1 @ [Getfilecon (dirname path)]"
    by (auto simp: getfilecon_def filecon_result_def enter_def split: option.splits)
  obtain tclass w3 where m: "mode_to_security_class E mode w2 = (tclass, w3)"
    by (metis prod.exhaust)
  from mode_to_security_class_calls [of E mode w2] m
  obtain l3 where c3: "calls w3 = calls w2 @ l3"
    by auto
  have c4: "security_compute_create E scon tcon tclass w3 = Some (r, w') \<Longrightarrow>
            \<exists>l4. calls w' = calls w3 @ l4"
    by (auto simp: security_compute_create_def enter_def split: option.splits)
  show ?thesis
    using assms g f m c1 c2 c3 c4
    by (auto simp: computecon_def split: if_splits)
qed

text \<open>
  What \<^verbatim>\<open>ok &= rc\<close> computes: \<^verbatim>\<open>ok\<close> stays true exactly when the status is odd. The
  status 0 (success) clears it; the status -1 (failure) leaves it alone.
\<close>

lemma and_assign_odd: "and_assign ok rc = (ok \<and> odd rc)"
  by (cases ok) (simp_all add: and_assign_def bool_of_int_def one_and_eq mod_2_eq_odd)

text \<open>
  The runs of the recomputing relabel that do not return -1: the pattern lookup
  answered and its answer parsed, the on-disk label was read, and either that label
  did not parse (the length returned by the label read is then returned and nothing is
  applied) or the merge was applied and 0 returned.
\<close>

lemma recompute_outcomes:
  assumes "restorecon_private E path False w = Some (rc, w')" and "rc \<noteq> - 1"
  shows "\<exists>scon tcon pattern.
           pattern_db E path (st_mode w path) = Some scon \<and>
           context_new_lib E scon = Some pattern \<and>
           filecon w path = Some tcon \<and>
           ((context_new_lib E tcon = None \<and> rc = int (length tcon) + 1 \<and> filecon w' = filecon w) \<or>
            (\<exists>current. context_new_lib E tcon = Some current \<and> rc = 0 \<and>
               filecon w' = (filecon w)(path \<mapsto> context_str_lib E (current\<lparr>c_type := c_type pattern\<rparr>))))"
  using assms
  by (auto simp: restorecon_private_def prim_defs fd_lookup_def split: option.splits if_splits)

text \<open>
  What a successful \<^verbatim>\<open>defaultcon\<close> and a successful recomputing relabel have done.
\<close>

lemma defaultcon_success:
  assumes "defaultcon E path mode w = Some (0, w')"
  shows "\<exists>scon tcon w1 w2 pattern transition.
           matchpathcon E path mode w = ((0, Some scon), w1) \<and>
           computecon E path mode w1 = Some ((0, Some tcon), w2) \<and>
           context_new E (Some scon) = Some (Some pattern) \<and>
           context_new E (Some tcon) = Some (Some transition) \<and>
           fscreatecon w' =
             Some (context_str E (context_type_set transition (context_type_get pattern)))"
proof -
  obtain rc1 scon w1 where m: "matchpathcon E path mode w = ((rc1, scon), w1)"
    by (metis prod.exhaust)
  from assms m have rc1: "\<not> rc1 < 0"
    by (auto simp: defaultcon_def)
  from matchpathcon_ok [OF m rc1] obtain s where s: "rc1 = 0" "scon = Some s"
    by auto
  from assms m rc1 obtain rc2 tcon w2 where c: "computecon E path mode w1 = Some ((rc2, tcon), w2)"
    by (auto simp: defaultcon_def split: option.splits)
  from assms m rc1 c have rc2: "\<not> rc2 < 0"
    by (auto simp: defaultcon_def)
  from computecon_ok [OF c rc2] obtain t where t: "rc2 = 0" "tcon = Some t"
    by auto
  from assms m c s t obtain pattern transition where
    p: "context_new_lib E s = Some pattern" "context_new_lib E t = Some transition"
    and i: "setfscreatecon E
              (Some (context_str E (context_type_set transition (context_type_get pattern)))) w2 =
            (0, w')"
    by (auto simp: defaultcon_def context_new_def split: option.splits)
  from i have "fscreatecon w' =
      Some (context_str E (context_type_set transition (context_type_get pattern)))"
    by (auto simp: setfscreatecon_def enter_def split: option.splits)
  with m c s t p show ?thesis
    by (auto simp: context_new_def)
qed

lemma recompute_success:
  assumes "restorecon_private E path False w = Some (0, w')"
  shows "\<exists>scon tcon pattern current.
           pattern_db E path (st_mode w path) = Some scon \<and>
           context_new E (Some scon) = Some (Some pattern) \<and>
           filecon w path = Some tcon \<and>
           context_new E (Some tcon) = Some (Some current) \<and>
           filecon w' =
             (filecon w)(path \<mapsto> context_str E (context_type_set current (context_type_get pattern)))"
proof -
  have "(0::int) \<noteq> - 1"
    by simp
  from recompute_outcomes [OF assms this] show ?thesis
    by (auto simp: context_new_def context_str_def context_type_set_def context_type_get_def)
qed

text \<open>
  One turn of the loop of \<^verbatim>\<open>restorecon\<close>, when \<^verbatim>\<open>fts_read\<close> itself does not fail: at the
  end of the walk the loop is left with \<^verbatim>\<open>ok\<close> as it is; otherwise the entry read is
  passed to \<^verbatim>\<open>restorecon_private\<close> once and, whatever status that returns, the loop
  goes on with the entries that remain. An error of \<^verbatim>\<open>fts_read\<close> ends the loop with
  \<^verbatim>\<open>ok\<close> false.
\<close>

lemma restorecon_loop_done:
  assumes "fts_pending sp = []" and "fault E (calls w) Fts_read = None"
  shows "restorecon_loop E preserve (Some sp) ok w =
           Some (ok, Some sp, w\<lparr>errno := 0, calls := calls w @ [Fts_read]\<rparr>)"
  using assms
  by (subst restorecon_loop.simps) (simp add: fts_read_def enter_def)

lemma restorecon_loop_step:
  assumes "fts_pending sp = p # ps" and "fault E (calls w) Fts_read = None"
  shows "restorecon_loop E preserve (Some sp) ok w =
           (case restorecon_private E p preserve (w\<lparr>calls := calls w @ [Fts_read]\<rparr>) of
              None \<Rightarrow> None
            | Some (rc, w2) \<Rightarrow>
                restorecon_loop E preserve (Some \<lparr>fts_path = p, fts_pending = ps\<rparr>)
                  (and_assign ok rc) w2)"
  using assms
  by (subst restorecon_loop.simps) (simp add: fts_read_def enter_def)

lemma restorecon_loop_read_error:
  assumes "fault E (calls w) Fts_read = Some e" and "e \<noteq> 0"
  shows "restorecon_loop E preserve (Some sp) ok w =
           Some (False, Some sp,
                 w\<lparr>errno := e, calls := calls w @ [Fts_read, Error_msg e ''fts_read failed'']\<rparr>)"
  using assms
  by (subst restorecon_loop.simps) (simp add: fts_read_def enter_def error_def)

text \<open>
  Once \<^verbatim>\<open>ok\<close> is false it stays false to the end of the loop. So whenever the relabel of
  the first entry of a walk (the root itself) returns an even status, 0 for success in
  particular, a \<^verbatim>\<open>restorecon\<close> with \<^verbatim>\<open>recurse\<close> that returns, returns false.
\<close>

lemma restorecon_loop_stays_false:
  "restorecon_loop E preserve fts ok w = Some (ok', fts', w') \<Longrightarrow> \<not> ok \<Longrightarrow> \<not> ok'"
proof (induction E preserve fts ok w rule: restorecon_loop.induct)
  case (1 E preserve fts ok w)
  from "1.prems"(1) show ?case
  proof (subst (asm) restorecon_loop.simps, goal_cases)
    case a: 1
    show ?thesis
    proof (cases "fts_read E fts w")
      case None
      with a show ?thesis by simp
    next
      case (Some r)
      obtain ent fts1 w1 where r: "r = ((ent, fts1), w1)"
        by (metis prod.exhaust)
      show ?thesis
      proof (cases ent)
        case None
        with a Some r "1.prems"(2) show ?thesis
          by (auto split: if_splits)
      next
        case (Some e)
        note ent = this
        show ?thesis
        proof (cases fts1)
          case None
          with a \<open>fts_read E fts w = Some r\<close> r ent show ?thesis by simp
        next
          case (Some sp)
          note sp = this
          show ?thesis
          proof (cases "restorecon_private E (fts_path sp) preserve w1")
            case None
            with a \<open>fts_read E fts w = Some r\<close> r ent sp show ?thesis by simp
          next
            case (Some q)
            obtain rc w2 where q: "q = (rc, w2)"
              by (metis prod.exhaust)
            from a \<open>fts_read E fts w = Some r\<close> r ent sp Some q
            have l: "restorecon_loop E preserve fts1 (and_assign ok rc) w2 = Some (ok', fts', w')"
              by simp
            have f: "\<not> and_assign ok rc"
              using "1.prems"(2) by (simp add: and_assign_odd)
            from "1.IH" [OF \<open>fts_read E fts w = Some r\<close> r [symmetric] refl ent sp Some q [symmetric] l f]
            show ?thesis .
          qed
        qed
      qed
    qed
  qed
qed

lemma root_success_clears_aggregate:
  assumes o: "fault E (calls w) (Fts_open root) = None"
    and walk: "fts_walk E root = p # ps"
    and r: "fault E (calls w @ [Fts_open root]) Fts_read = None"
    and first: "restorecon_private E p preserve (w\<lparr>calls := calls w @ [Fts_open root, Fts_read]\<rparr>) =
                  Some (rc, w2)"
    and even: "even rc"
    and res: "restorecon E root True preserve w = Some (ok, w')"
  shows "\<not> ok"
proof -
  let ?sp = "\<lparr>fts_path = [], fts_pending = fts_walk E root\<rparr>"
  let ?w1 = "w\<lparr>calls := calls w @ [Fts_open root]\<rparr>"
  have op: "fts_open E root w = (Some ?sp, ?w1)"
    using o by (simp add: fts_open_def enter_def)
  have pend: "fts_pending ?sp = p # ps"
    using walk by simp
  have r': "fault E (calls ?w1) Fts_read = None"
    using r by simp
  have w1: "?w1\<lparr>calls := calls ?w1 @ [Fts_read]\<rparr> = w\<lparr>calls := calls w @ [Fts_open root, Fts_read]\<rparr>"
    by simp
  have step: "restorecon_loop E preserve (Some ?sp) True ?w1 =
        restorecon_loop E preserve (Some \<lparr>fts_path = p, fts_pending = ps\<rparr>) (and_assign True rc) w2"
    using restorecon_loop_step [OF pend r', of preserve True] first
    by (simp only: w1) simp
  have cleared: "\<not> and_assign True rc"
    using even by (simp add: and_assign_odd)
  from res op step obtain ok1 fts1 w3 where
    l: "restorecon_loop E preserve (Some \<lparr>fts_path = p, fts_pending = ps\<rparr>) (and_assign True rc) w2 =
          Some (ok1, fts1, w3)"
    and fin: "ok \<longrightarrow> ok1"
    by (auto simp: restorecon_def split: option.splits if_splits)
  from restorecon_loop_stays_false [OF l cleared] fin show ?thesis
    by simp
qed

section \<open>The merge of two labels\<close>

text \<open>
  Claim C6. The merge used by \<^verbatim>\<open>defaultcon\<close> (line 126) and by the recomputing branch of
  \<^verbatim>\<open>restorecon_private\<close> (line 202) is
  \<^verbatim>\<open>context_type_set (tcontext, context_type_get (scontext))\<close>. For all pairs of labels
  it changes exactly the type of the base label, to the type of the source label; user,
  role and range of the result are those of the base. A successful \<^verbatim>\<open>defaultcon\<close> has
  installed the printed form of this merge (base: the transition label, source: the
  pattern label), and a successful recomputing relabel has applied the printed form of
  this merge (base: the object's current label, source: the pattern label).
\<close>

theorem merge_changes_only_type:
  "(c_type (context_type_set base (context_type_get source)) = c_type source \<and>
    c_user (context_type_set base (context_type_get source)) = c_user base \<and>
    c_role (context_type_set base (context_type_get source)) = c_role base \<and>
    c_range (context_type_set base (context_type_get source)) = c_range base) \<and>
   (defaultcon E path mode w = Some (0, w') \<longrightarrow>
      (\<exists>scon tcon w1 w2 pattern transition.
         matchpathcon E path mode w = ((0, Some scon), w1) \<and>
         computecon E path mode w1 = Some ((0, Some tcon), w2) \<and>
         context_new E (Some scon) = Some (Some pattern) \<and>
         context_new E (Some tcon) = Some (Some transition) \<and>
         fscreatecon w' =
           Some (context_str E (context_type_set transition (context_type_get pattern))))) \<and>
   (restorecon_private E path False w = Some (0, w'') \<longrightarrow>
      (\<exists>scon tcon pattern current.
         pattern_db E path (st_mode w path) = Some scon \<and>
         context_new E (Some scon) = Some (Some pattern) \<and>
         filecon w path = Some tcon \<and>
         context_new E (Some tcon) = Some (Some current) \<and>
         filecon w'' =
           (filecon w)(path \<mapsto>
              context_str E (context_type_set current (context_type_get pattern)))))"
proof (intro conjI impI)
  assume "defaultcon E path mode w = Some (0, w')"
  then show "\<exists>scon tcon w1 w2 pattern transition.
         matchpathcon E path mode w = ((0, Some scon), w1) \<and>
         computecon E path mode w1 = Some ((0, Some tcon), w2) \<and>
         context_new E (Some scon) = Some (Some pattern) \<and>
         context_new E (Some tcon) = Some (Some transition) \<and>
         fscreatecon w' =
           Some (context_str E (context_type_set transition (context_type_get pattern)))"
    by (rule defaultcon_success)
next
  assume "restorecon_private E path False w = Some (0, w'')"
  then show "\<exists>scon tcon pattern current.
         pattern_db E path (st_mode w path) = Some scon \<and>
         context_new E (Some scon) = Some (Some pattern) \<and>
         filecon w path = Some tcon \<and>
         context_new E (Some tcon) = Some (Some current) \<and>
         filecon w'' =
           (filecon w)(path \<mapsto>
              context_str E (context_type_set current (context_type_get pattern)))"
    by (rule recompute_success)
qed (simp_all add: context_type_set_def context_type_get_def)

theorem merge_changes_only_type_witness:
  "(\<exists>w'. defaultcon sample_env ''/etc/motd'' 33188 sample_world = Some (0, w') \<and>
      (\<exists>scon tcon w1 w2 pattern transition.
         matchpathcon sample_env ''/etc/motd'' 33188 sample_world = ((0, Some scon), w1) \<and>
         computecon sample_env ''/etc/motd'' 33188 w1 = Some ((0, Some tcon), w2) \<and>
         context_new sample_env (Some scon) = Some (Some pattern) \<and>
         context_new sample_env (Some tcon) = Some (Some transition) \<and>
         fscreatecon w' =
           Some (context_str sample_env
                   (context_type_set transition (context_type_get pattern))))) \<and>
   (\<exists>w''. restorecon_private sample_env ''/etc/motd'' False sample_world = Some (0, w'') \<and>
      (\<exists>scon tcon pattern current.
         pattern_db sample_env ''/etc/motd'' (st_mode sample_world ''/etc/motd'') = Some scon \<and>
         context_new sample_env (Some scon) = Some (Some pattern) \<and>
         filecon sample_world ''/etc/motd'' = Some tcon \<and>
         context_new sample_env (Some tcon) = Some (Some current) \<and>
         filecon w'' =
           (filecon sample_world)(''/etc/motd'' \<mapsto>
              context_str sample_env (context_type_set current (context_type_get pattern)))))"
proof -
  have "\<exists>w'. defaultcon sample_env ''/etc/motd'' 33188 sample_world = Some (0, w')"
    by (rule returned_value) code_simp
  then obtain w' where d: "defaultcon sample_env ''/etc/motd'' 33188 sample_world = Some (0, w')"
    by (elim exE)
  have "\<exists>w'. restorecon_private sample_env ''/etc/motd'' False sample_world = Some (0, w')"
    by (rule returned_value) code_simp
  then obtain w'' where
    r: "restorecon_private sample_env ''/etc/motd'' False sample_world = Some (0, w'')"
    by (elim exE)
  note t = merge_changes_only_type
             [of _ _ sample_env "''/etc/motd''" 33188 sample_world w' w'', THEN conjunct2]
  note a = t [THEN conjunct1, rule_format, OF d]
  note b = t [THEN conjunct2, rule_format, OF r]
  show ?thesis
    by (rule conjI, rule exI [of _ w'], rule conjI, rule d, rule a,
        rule exI [of _ w''], rule conjI, rule r, rule b)
qed

section \<open>\<^verbatim>\<open>defaultcon\<close>\<close>

text \<open>
  Claim C3, as stated: the installed creation label has the pattern label as its base
  and takes only its type from the transition label. On the sample system the pattern
  lookup for \<^verbatim>\<open>/etc/motd\<close> answers \<^verbatim>\<open>system_u:object_r:etc_runtime_t:s0\<close> and the policy
  transition answers \<^verbatim>\<open>unconfined_u:object_r:etc_t:s0\<close>; \<^verbatim>\<open>defaultcon\<close> succeeds and
  installs \<^verbatim>\<open>unconfined_u:object_r:etc_runtime_t:s0\<close>, which is not the merge the claim
  describes (\<^verbatim>\<open>system_u:object_r:etc_t:s0\<close>).
\<close>

theorem defaultcon_base_counterexample:
  "fst (matchpathcon sample_env ''/etc/motd'' 33188 sample_world) =
     (0, Some ''system_u:object_r:etc_runtime_t:s0'') \<and>
   map_option fst
     (computecon sample_env ''/etc/motd'' 33188
        (snd (matchpathcon sample_env ''/etc/motd'' 33188 sample_world))) =
     Some (0, Some ''unconfined_u:object_r:etc_t:s0'') \<and>
   context_new sample_env (Some ''system_u:object_r:etc_runtime_t:s0'') =
     Some (Some \<lparr>c_user = ''system_u'', c_role = ''object_r'', c_type = ''etc_runtime_t'',
                  c_range = ''s0''\<rparr>) \<and>
   context_new sample_env (Some ''unconfined_u:object_r:etc_t:s0'') =
     Some (Some \<lparr>c_user = ''unconfined_u'', c_role = ''object_r'', c_type = ''etc_t'',
                  c_range = ''s0''\<rparr>) \<and>
   map_option fst (defaultcon sample_env ''/etc/motd'' 33188 sample_world) = Some 0 \<and>
   map_option (fscreatecon \<circ> snd) (defaultcon sample_env ''/etc/motd'' 33188 sample_world) =
     Some (Some ''unconfined_u:object_r:etc_runtime_t:s0'') \<and>
   context_str sample_env
     (context_type_set
        \<lparr>c_user = ''system_u'', c_role = ''object_r'', c_type = ''etc_runtime_t'',
           c_range = ''s0''\<rparr>
        (context_type_get
           \<lparr>c_user = ''unconfined_u'', c_role = ''object_r'', c_type = ''etc_t'',
              c_range = ''s0''\<rparr>)) =
     ''system_u:object_r:etc_t:s0'' \<and>
   ''unconfined_u:object_r:etc_runtime_t:s0'' \<noteq> ''system_u:object_r:etc_t:s0''"
  by code_simp

text \<open>
  Claim C3, amended: whenever \<^verbatim>\<open>defaultcon\<close> succeeds, both lookups succeeded, both
  labels parsed, and the creation label now installed is the merge that takes the
  policy-transition label as the base and overwrites only its type with the type of the
  path-pattern label: user, role and range come from the transition label, the type
  from the pattern label.
\<close>

theorem defaultcon_installs_transition_label_with_pattern_type:
  assumes "defaultcon E path mode w = Some (0, w')"
  shows "\<exists>scon tcon w1 w2 pattern transition merged.
           matchpathcon E path mode w = ((0, Some scon), w1) \<and>
           computecon E path mode w1 = Some ((0, Some tcon), w2) \<and>
           context_new E (Some scon) = Some (Some pattern) \<and>
           context_new E (Some tcon) = Some (Some transition) \<and>
           fscreatecon w' = Some (context_str E merged) \<and>
           c_user merged = c_user transition \<and>
           c_role merged = c_role transition \<and>
           c_range merged = c_range transition \<and>
           c_type merged = c_type pattern"
proof -
  from defaultcon_success [OF assms]
  obtain scon tcon w1 w2 pattern transition where
    f: "matchpathcon E path mode w = ((0, Some scon), w1)"
       "computecon E path mode w1 = Some ((0, Some tcon), w2)"
       "context_new E (Some scon) = Some (Some pattern)"
       "context_new E (Some tcon) = Some (Some transition)"
       "fscreatecon w' =
          Some (context_str E (context_type_set transition (context_type_get pattern)))"
    by blast
  have "c_user (context_type_set transition (context_type_get pattern)) = c_user transition"
    "c_role (context_type_set transition (context_type_get pattern)) = c_role transition"
    "c_range (context_type_set transition (context_type_get pattern)) = c_range transition"
    "c_type (context_type_set transition (context_type_get pattern)) = c_type pattern"
    by (simp_all add: context_type_set_def context_type_get_def)
  with f show ?thesis
    by blast
qed

theorem defaultcon_installs_witness:
  "\<exists>w'. defaultcon sample_env ''/etc/motd'' 33188 sample_world = Some (0, w') \<and>
     (\<exists>scon tcon w1 w2 pattern transition merged.
        matchpathcon sample_env ''/etc/motd'' 33188 sample_world = ((0, Some scon), w1) \<and>
        computecon sample_env ''/etc/motd'' 33188 w1 = Some ((0, Some tcon), w2) \<and>
        context_new sample_env (Some scon) = Some (Some pattern) \<and>
        context_new sample_env (Some tcon) = Some (Some transition) \<and>
        fscreatecon w' = Some (context_str sample_env merged) \<and>
        c_user merged = c_user transition \<and>
        c_role merged = c_role transition \<and>
        c_range merged = c_range transition \<and>
        c_type merged = c_type pattern)"
proof -
  have "\<exists>w'. defaultcon sample_env ''/etc/motd'' 33188 sample_world = Some (0, w')"
    by (rule returned_value) code_simp
  then obtain w' where h: "defaultcon sample_env ''/etc/motd'' 33188 sample_world = Some (0, w')"
    by (elim exE)
  note c = defaultcon_installs_transition_label_with_pattern_type [OF h]
  show ?thesis
    by (rule exI [of _ w'], rule conjI, rule h, rule c)
qed

text \<open>
  Claim C10. \<^verbatim>\<open>defaultcon\<close> performs the path-pattern lookup before any policy query:
  in every run the first call is \<^verbatim>\<open>matchpathcon\<close>, and whenever that lookup fails
  \<^verbatim>\<open>defaultcon\<close> returns -1 having made no other call (it has not asked for the
  process's label, the parent directory's label or the policy transition) and
  leaves the process-wide creation label as it was.
\<close>

theorem defaultcon_pattern_lookup_first:
  "(fst (fst (matchpathcon E path mode w)) < 0 \<longrightarrow>
      (\<exists>w'. defaultcon E path mode w = Some (- 1, w') \<and>
            new_calls w w' = [Matchpathcon path mode] \<and>
            fscreatecon w' = fscreatecon w)) \<and>
   (\<forall>rc w'. defaultcon E path mode w = Some (rc, w') \<longrightarrow>
      (\<exists>later. new_calls w w' = Matchpathcon path mode # later))"
proof (intro conjI impI allI)
  assume "fst (fst (matchpathcon E path mode w)) < 0"
  then show "\<exists>w'. defaultcon E path mode w = Some (- 1, w') \<and>
            new_calls w w' = [Matchpathcon path mode] \<and> fscreatecon w' = fscreatecon w"
    by (auto simp: defaultcon_def matchpathcon_def enter_def new_calls_def
             split: option.splits prod.splits)
next
  fix rc w'
  assume d: "defaultcon E path mode w = Some (rc, w')"
  obtain rc1 scon w1 where m: "matchpathcon E path mode w = ((rc1, scon), w1)"
    by (metis prod.exhaust)
  with matchpathcon_calls [of E path mode w]
  have c1: "calls w1 = calls w @ [Matchpathcon path mode]"
    by simp
  have "\<exists>later. calls w' = calls w1 @ later"
  proof (cases "rc1 < 0")
    case True
    with d m show ?thesis
      by (simp add: defaultcon_def)
  next
    case False
    with d m obtain rc2 tcon w2 where c: "computecon E path mode w1 = Some ((rc2, tcon), w2)"
      by (auto simp: defaultcon_def split: option.splits)
    from computecon_calls [OF c] obtain l2 where c2: "calls w2 = calls w1 @ l2"
      by auto
    from d m c False c2 show ?thesis
      by (auto simp: defaultcon_def context_new_def setfscreatecon_def enter_def
               split: option.splits if_splits)
  qed
  with c1 show "\<exists>later. new_calls w w' = Matchpathcon path mode # later"
    by (auto simp: new_calls_def)
qed

theorem defaultcon_pattern_lookup_first_witness:
  "fst (fst (matchpathcon sample_env ''/mnt/x'' 33188 creating_world)) < 0 \<and>
   (\<exists>w'. defaultcon sample_env ''/mnt/x'' 33188 creating_world = Some (- 1, w') \<and>
         new_calls creating_world w' = [Matchpathcon ''/mnt/x'' 33188] \<and>
         fscreatecon w' = fscreatecon creating_world) \<and>
   (\<exists>w'. defaultcon sample_env ''/etc/motd'' 33188 sample_world = Some (0, w') \<and>
         (\<exists>later. new_calls sample_world w' = Matchpathcon ''/etc/motd'' 33188 # later))"
proof -
  have f: "fst (fst (matchpathcon sample_env ''/mnt/x'' 33188 creating_world)) < 0"
    by code_simp
  have "\<exists>w'. defaultcon sample_env ''/etc/motd'' 33188 sample_world = Some (0, w')"
    by (rule returned_value) code_simp
  then obtain w' where h: "defaultcon sample_env ''/etc/motd'' 33188 sample_world = Some (0, w')"
    by (elim exE)
  note a = defaultcon_pattern_lookup_first
             [of sample_env "''/mnt/x''" 33188 creating_world, THEN conjunct1, rule_format, OF f]
  note b = defaultcon_pattern_lookup_first
             [of sample_env "''/etc/motd''" 33188 sample_world, THEN conjunct2, rule_format, OF h]
  show ?thesis
    by (rule conjI, rule f, rule conjI, rule a, rule exI [of _ w'], rule conjI, rule h, rule b)
qed

section \<open>\<^verbatim>\<open>restorecon_private\<close>, preserving\<close>

text \<open>
  Claim C7. With \<^verbatim>\<open>preserve\<close> set, \<^verbatim>\<open>restorecon_private\<close> never queries the
  path-pattern database or the policy-transition function: a run that returns has
  called \<^verbatim>\<open>getfscreatecon\<close> and then, at most, \<^verbatim>\<open>lsetfilecon\<close> on the path. When it
  returns 0 it has read a creation label and the object's on-disk label is now that very
  string (so type, user, role and range are all copied); no other on-disk label has
  changed, and the creation label itself is unchanged.
\<close>

theorem preserve_copies_creation_label:
  assumes "restorecon_private E path True w = Some (rc, w')"
  shows "list_all (\<lambda>c. \<not> is_policy_query c) (new_calls w w') \<and>
         (new_calls w w' = [Getfscreatecon] \<or>
          (\<exists>l. new_calls w w' = [Getfscreatecon, Lsetfilecon path l])) \<and>
         (rc = 0 \<longrightarrow>
            (\<exists>l. fscreatecon w = Some l \<and>
                 new_calls w w' = [Getfscreatecon, Lsetfilecon path l] \<and>
                 filecon w' = (filecon w)(path \<mapsto> l) \<and>
                 fscreatecon w' = Some l))"
  using assms
  by (auto simp: restorecon_private_def getfscreatecon_def lsetfilecon_def enter_def new_calls_def
           split: option.splits if_splits)

theorem preserve_copies_creation_label_witness:
  "\<exists>w'. restorecon_private sample_env ''/etc/motd'' True creating_world = Some (0, w') \<and>
     list_all (\<lambda>c. \<not> is_policy_query c) (new_calls creating_world w') \<and>
     (\<exists>l. fscreatecon creating_world = Some l \<and>
          new_calls creating_world w' = [Getfscreatecon, Lsetfilecon ''/etc/motd'' l] \<and>
          filecon w' = (filecon creating_world)(''/etc/motd'' \<mapsto> l) \<and>
          fscreatecon w' = Some l)"
proof -
  have "\<exists>w'. restorecon_private sample_env ''/etc/motd'' True creating_world = Some (0, w')"
    by (rule returned_value) code_simp
  then obtain w' where
    h: "restorecon_private sample_env ''/etc/motd'' True creating_world = Some (0, w')"
    by (elim exE)
  note c = preserve_copies_creation_label [OF h]
  note c1 = c [THEN conjunct1]
  note c3 = c [THEN conjunct2, THEN conjunct2, rule_format, OF refl]
  show ?thesis
    by (rule exI [of _ w'], rule conjI, rule h, rule conjI, rule c1, rule c3)
qed

text \<open>
  Claim C9. With \<^verbatim>\<open>preserve\<close> set, the only call that touches the object is one
  \<^verbatim>\<open>lsetfilecon\<close> on its path (none at all when \<^verbatim>\<open>getfscreatecon\<close> fails): the object is
  not opened, not inspected and its label is not read. The status returned is the same
  whatever \<^verbatim>\<open>errno\<close>, the modes, the on-disk labels and the descriptor table of the
  world are: with all of these replaced, the run returns what it returned before.
\<close>

theorem preserve_ignores_object:
  "(\<forall>e t m f. map_option fst
               (restorecon_private E path True
                  (w\<lparr>errno := e, fdtab := t, st_mode := m, filecon := f\<rparr>)) =
             map_option fst (restorecon_private E path True w)) \<and>
   (\<forall>rc w'. restorecon_private E path True w = Some (rc, w') \<longrightarrow>
      (filter touches_object (new_calls w w') = [] \<or>
       (\<exists>l. filter touches_object (new_calls w w') = [Lsetfilecon path l])))"
  by (auto simp: restorecon_private_def getfscreatecon_def lsetfilecon_def enter_def new_calls_def
           split: option.splits if_splits)

theorem preserve_ignores_object_witness:
  "map_option fst
     (restorecon_private sample_env ''/etc/motd'' True
        (creating_world\<lparr>errno := ELOOP, fdtab := [], st_mode := all_symlinks,
                          filecon := no_labels\<rparr>)) =
   map_option fst (restorecon_private sample_env ''/etc/motd'' True creating_world) \<and>
   (\<exists>w'. restorecon_private sample_env ''/etc/motd'' True creating_world = Some (0, w') \<and>
      (filter touches_object (new_calls creating_world w') = [] \<or>
       (\<exists>l. filter touches_object (new_calls creating_world w') =
              [Lsetfilecon ''/etc/motd'' l])))"
proof -
  have "\<exists>w'. restorecon_private sample_env ''/etc/motd'' True creating_world = Some (0, w')"
    by (rule returned_value) code_simp
  then obtain w' where
    h: "restorecon_private sample_env ''/etc/motd'' True creating_world = Some (0, w')"
    by (elim exE)
  note c = preserve_ignores_object [of sample_env "''/etc/motd''" creating_world]
  note a = c [THEN conjunct1, rule_format,
                where e = ELOOP and t = "[]" and m = all_symlinks and f = no_labels]
  note b = c [THEN conjunct2, rule_format, OF h]
  show ?thesis
    by (rule conjI, rule a, rule exI [of _ w'], rule conjI, rule h, rule b)
qed

section \<open>\<^verbatim>\<open>restorecon_private\<close>, recomputing\<close>

text \<open>
  Claim C5. Let the object's on-disk label parse to \<open>current\<close>. When
  \<^verbatim>\<open>restorecon_private\<close> without \<^verbatim>\<open>preserve\<close> does not return -1, it returns 0, the
  path-pattern database had an answer for the object's path and mode, and the on-disk
  labels have changed at this object only: its label is now the printed form of a label
  whose user, role and range are those of \<open>current\<close> and whose type is that of
  the database's answer.
\<close>

theorem recompute_keeps_user_role_range:
  assumes "restorecon_private E path False w = Some (rc, w')" and "rc \<noteq> - 1"
    and "filecon w path = Some tcon"
    and "context_new E (Some tcon) = Some (Some current)"
  shows "rc = 0 \<and>
         (\<exists>scon pattern merged.
            pattern_db E path (st_mode w path) = Some scon \<and>
            context_new E (Some scon) = Some (Some pattern) \<and>
            filecon w' = (filecon w)(path \<mapsto> context_str E merged) \<and>
            c_user merged = c_user current \<and>
            c_role merged = c_role current \<and>
            c_range merged = c_range current \<and>
            c_type merged = c_type pattern)"
proof -
  from assms(4) have cur: "context_new_lib E tcon = Some current"
    by (simp add: context_new_def)
  from recompute_outcomes [OF assms(1,2)] assms(3) cur
  obtain scon pattern where
    "pattern_db E path (st_mode w path) = Some scon"
    "context_new E (Some scon) = Some (Some pattern)"
    "rc = 0"
    "filecon w' = (filecon w)(path \<mapsto> context_str E (current\<lparr>c_type := c_type pattern\<rparr>))"
    by (auto simp: context_str_def context_new_def)
  then show ?thesis
    by (intro conjI exI [of _ scon] exI [of _ pattern]
              exI [of _ "current\<lparr>c_type := c_type pattern\<rparr>"]) simp_all
qed

theorem recompute_keeps_user_role_range_witness:
  "\<exists>w'. restorecon_private sample_env ''/etc/motd'' False sample_world = Some (0, w') \<and>
     (0::int) \<noteq> - 1 \<and>
     filecon sample_world ''/etc/motd'' = Some ''unconfined_u:object_r:user_tmp_t:s0'' \<and>
     context_new sample_env (Some ''unconfined_u:object_r:user_tmp_t:s0'') =
       Some (Some \<lparr>c_user = ''unconfined_u'', c_role = ''object_r'', c_type = ''user_tmp_t'',
                    c_range = ''s0''\<rparr>) \<and>
     (\<exists>scon pattern merged.
        pattern_db sample_env ''/etc/motd'' (st_mode sample_world ''/etc/motd'') = Some scon \<and>
        context_new sample_env (Some scon) = Some (Some pattern) \<and>
        filecon w' = (filecon sample_world)(''/etc/motd'' \<mapsto> context_str sample_env merged) \<and>
        c_user merged =
          c_user \<lparr>c_user = ''unconfined_u'', c_role = ''object_r'', c_type = ''user_tmp_t'',
                    c_range = ''s0''\<rparr> \<and>
        c_role merged =
          c_role \<lparr>c_user = ''unconfined_u'', c_role = ''object_r'', c_type = ''user_tmp_t'',
                    c_range = ''s0''\<rparr> \<and>
        c_range merged =
          c_range \<lparr>c_user = ''unconfined_u'', c_role = ''object_r'', c_type = ''user_tmp_t'',
                     c_range = ''s0''\<rparr> \<and>
        c_type merged = c_type pattern)"
proof -
  have "\<exists>w'. restorecon_private sample_env ''/etc/motd'' False sample_world = Some (0, w')"
    by (rule returned_value) code_simp
  then obtain w' where
    h: "restorecon_private sample_env ''/etc/motd'' False sample_world = Some (0, w')"
    by (elim exE)
  have n: "(0::int) \<noteq> - 1"
    by simp
  have l: "filecon sample_world ''/etc/motd'' = Some ''unconfined_u:object_r:user_tmp_t:s0''"
    by code_simp
  have p: "context_new sample_env (Some ''unconfined_u:object_r:user_tmp_t:s0'') =
       Some (Some \<lparr>c_user = ''unconfined_u'', c_role = ''object_r'', c_type = ''user_tmp_t'',
                    c_range = ''s0''\<rparr>)"
    by code_simp
  note c = recompute_keeps_user_role_range [OF h n l p, THEN conjunct2]
  show ?thesis
    by (rule exI [of _ w'], rule conjI, rule h, rule conjI, rule n, rule conjI, rule l,
        rule conjI, rule p, rule c)
qed

text \<open>
  Claim C4 says that an \<^verbatim>\<open>open\<close> failing with \<^verbatim>\<open>ELOOP\<close> makes \<^verbatim>\<open>restorecon_private\<close> fall
  back to \<^verbatim>\<open>lstat\<close>, \<^verbatim>\<open>lgetfilecon\<close> and \<^verbatim>\<open>lsetfilecon\<close>. The code tests \<^verbatim>\<open>!fd\<close> and
  \<^verbatim>\<open>if (fd)\<close>, and a failed \<^verbatim>\<open>open\<close> returns -1, which is not 0: whenever \<^verbatim>\<open>open\<close> fails,
  with \<^verbatim>\<open>ELOOP\<close> or anything else, the function calls \<^verbatim>\<open>fstat\<close> on -1, which fails, closes
  -1 and returns -1. No path-based call is made and no label changes.
\<close>

theorem open_failure_never_falls_back:
  assumes "fst (open_rdonly_nofollow E path w) = - 1"
  shows "\<exists>w'. restorecon_private E path False w = Some (- 1, w') \<and>
              new_calls w w' = [Open path, Fstat (- 1), Close (- 1)] \<and>
              filecon w' = filecon w"
proof -
  obtain w1 where o: "open_rdonly_nofollow E path w = (- 1, w1)"
    using assms by (metis prod.collapse)
  with open_effects [of E path w]
  have w1: "calls w1 = calls w @ [Open path]" "filecon w1 = filecon w"
    by simp_all
  have neg: "(- 1 :: int) < 0"
    by simp
  note f = fstat_negative [OF neg, of E w1]
  obtain w2 where s: "fstat E (- 1) w1 = ((- 1, 0), w2)"
    using f by (cases "fstat E (- 1) w1") auto
  with f have w2: "calls w2 = calls w1 @ [Fstat (- 1)]" "filecon w2 = filecon w1"
    by simp_all
  have r: "restorecon_private E path False w = Some (- 1, snd (close_fd E (- 1) w2))"
    using o s by (simp add: restorecon_private_def quit_def)
  show ?thesis
    using r w1 w2 close_fd_effects [of E "- 1" w2]
    by (simp add: new_calls_def)
qed

text \<open>The symbolic link of the sample system: \<^verbatim>\<open>open\<close> fails with \<^verbatim>\<open>ELOOP\<close>.\<close>

theorem open_failure_never_falls_back_witness:
  "S_ISLNK (st_mode sample_world ''/etc/localtime'') \<and>
   fst (open_rdonly_nofollow sample_env ''/etc/localtime'' sample_world) = - 1 \<and>
   errno (snd (open_rdonly_nofollow sample_env ''/etc/localtime'' sample_world)) = ELOOP \<and>
   (\<exists>w'. restorecon_private sample_env ''/etc/localtime'' False sample_world = Some (- 1, w') \<and>
         new_calls sample_world w' = [Open ''/etc/localtime'', Fstat (- 1), Close (- 1)] \<and>
         filecon w' = filecon sample_world)"
proof -
  have l: "S_ISLNK (st_mode sample_world ''/etc/localtime'')"
    by code_simp
  have o: "fst (open_rdonly_nofollow sample_env ''/etc/localtime'' sample_world) = - 1"
    by code_simp
  have e: "errno (snd (open_rdonly_nofollow sample_env ''/etc/localtime'' sample_world)) = ELOOP"
    by code_simp
  note c = open_failure_never_falls_back [OF o]
  show ?thesis
    by (rule conjI, rule l, rule conjI, rule o, rule conjI, rule e, rule c)
qed

section \<open>\<^verbatim>\<open>restorecon\<close>\<close>

text \<open>
  Claim C2 says that without \<^verbatim>\<open>recurse\<close> the outcome \<^verbatim>\<open>restorecon\<close> reports is that of the
  one \<^verbatim>\<open>restorecon_private\<close> call. The call is the only thing it does, and the world it
  leaves is the one that call leaves; but the \<^verbatim>\<open>int\<close> status is returned as a \<^verbatim>\<open>bool\<close>,
  so \<^verbatim>\<open>restorecon\<close> returns true exactly when the status is not 0: false (documented as
  failure) for the status 0 of a successful relabel.
\<close>

theorem restorecon_single_reports_nonzero:
  assumes "restorecon_private E path preserve w = Some (rc, w')"
  shows "restorecon E path False preserve w = Some (rc \<noteq> 0, w')"
  using assms by (simp add: restorecon_def bool_of_int_def)

theorem restorecon_single_reports_nonzero_witness:
  "\<exists>w'. restorecon_private sample_env ''/etc/motd'' False sample_world = Some (0, w') \<and>
        restorecon sample_env ''/etc/motd'' False False sample_world = Some (False, w')"
proof -
  have "\<exists>w'. restorecon_private sample_env ''/etc/motd'' False sample_world = Some (0, w')"
    by (rule returned_value) code_simp
  then obtain w' where
    h: "restorecon_private sample_env ''/etc/motd'' False sample_world = Some (0, w')"
    by (elim exE)
  have z: "((0::int) \<noteq> 0) = False"
    by simp
  note c = restorecon_single_reports_nonzero [OF h, unfolded z]
  show ?thesis
    by (rule exI [of _ w'], rule conjI, rule h, rule c)
qed

text \<open>
  Claim C1 says that the recursive aggregate is false if and only if some relabel or
  the walk failed. On the sample system the walk of the regular file \<^verbatim>\<open>/etc/motd\<close>
  yields that one entry, its relabel succeeds (status 0, label applied), nothing else
  fails, and \<^verbatim>\<open>restorecon\<close> returns false; the walk of \<^verbatim>\<open>/mnt/x\<close> yields one entry whose
  relabel fails (status -1, no pattern matches), and \<^verbatim>\<open>restorecon\<close> returns true. (The
  first half is no accident of the sample: see \<open>root_success_clears_aggregate\<close>.)
\<close>

theorem restorecon_aggregate_inverted:
  "map_option fst (restorecon_private sample_env ''/etc/motd'' False sample_world) = Some 0 \<and>
   map_option fst (restorecon sample_env ''/etc/motd'' True False sample_world) = Some False \<and>
   map_option (calls \<circ> snd) (restorecon sample_env ''/etc/motd'' True False sample_world) =
     Some [Fts_open ''/etc/motd'', Fts_read, Open ''/etc/motd'', Fstat 3,
           Matchpathcon ''/etc/motd'' 33188, Fgetfilecon 3,
           Fsetfilecon 3 ''unconfined_u:object_r:etc_runtime_t:s0'', Close 3,
           Fts_read, Fts_close] \<and>
   map_option fst (restorecon_private sample_env ''/mnt/x'' False sample_world) = Some (- 1) \<and>
   map_option fst (restorecon sample_env ''/mnt/x'' True False sample_world) = Some True \<and>
   map_option (calls \<circ> snd) (restorecon sample_env ''/mnt/x'' True False sample_world) =
     Some [Fts_open ''/mnt/x'', Fts_read, Open ''/mnt/x'', Fstat 3,
           Matchpathcon ''/mnt/x'' 33188, Close 3, Fts_read, Fts_close]"
  by code_simp

text \<open>
  Claim C8 says that a failing entry never stops the walk and is folded into the
  aggregate. On the sample system the walk of \<^verbatim>\<open>/srv\<close> yields \<^verbatim>\<open>/srv\<close>, \<^verbatim>\<open>/srv/a\<close>,
  \<^verbatim>\<open>/srv/b\<close>, \<^verbatim>\<open>/srv\<close>. The file \<^verbatim>\<open>/srv/a\<close> has no label on disk, so \<^verbatim>\<open>fgetfilecon\<close>
  returns -1; the test \<^verbatim>\<open>!rc\<close> lets that through, and \<^verbatim>\<open>context_new\<close> is handed the null
  pointer: the relabel of \<^verbatim>\<open>/srv/a\<close> has no defined outcome, and neither has the walk,
  which never reaches \<^verbatim>\<open>/srv/b\<close>. Where a failing relabel does return (-1 for
  \<^verbatim>\<open>/mnt/x\<close>), the aggregate stays true: the failure is not folded into it.
\<close>

theorem walk_ends_at_unreadable_label:
  "fts_walk sample_env ''/srv'' = [''/srv'', ''/srv/a'', ''/srv/b'', ''/srv''] \<and>
   filecon sample_world ''/srv/a'' = None \<and>
   map_option fst (restorecon_private sample_env ''/srv'' False sample_world) = Some 0 \<and>
   restorecon_private sample_env ''/srv/a'' False sample_world = None \<and>
   restorecon sample_env ''/srv'' True False sample_world = None \<and>
   map_option fst (restorecon_private sample_env ''/mnt/x'' False sample_world) = Some (- 1) \<and>
   map_option fst (restorecon sample_env ''/mnt/x'' True False sample_world) = Some True"
  by code_simp

end
